theory Spec2Isabelle
  imports Main "HOL-Library.AList"
begin

section \<open>Data model\<close>

text \<open>
  The two source files are \<^verbatim>\<open>httplib.go\<close> (package trace: the HTTP bridge) and the
  gRPC bridge of package trail. Go's \<^verbatim>\<open>error\<close> interface values are modelled by the
  datatype \<open>error\<close>; a nil error is \<open>None\<close> of \<open>error option\<close>. Byte slices and
  strings are \<open>string\<close> (a list of bytes).
\<close>

type_synonym bytes = string

text \<open>The closed set of typed error kinds (\<^verbatim>\<open>*trace.NotFoundError\<close>, ...).\<close>

datatype kind =
    NotFound | BadParameter | NotImplemented | CompareFailed | AccessDenied
  | AlreadyExists | LimitExceeded | ConnectionProblem | OAuth2 | Retry | Trust

text \<open>The gRPC status codes of \<^verbatim>\<open>google.golang.org/grpc/codes\<close>.\<close>

datatype code =
    codes_OK | codes_Canceled | codes_Unknown | codes_InvalidArgument
  | codes_DeadlineExceeded | codes_NotFound | codes_AlreadyExists
  | codes_PermissionDenied | codes_ResourceExhausted | codes_FailedPrecondition
  | codes_Aborted | codes_OutOfRange | codes_Unimplemented | codes_Internal
  | codes_Unavailable | codes_DataLoss | codes_Unauthenticated

text \<open>A capture frame (function, file, line) and the remaining fields of a trace.\<close>

record Trace =
  Path :: string
  Func :: string
  Line :: int

type_synonym Traces = "Trace list"
type_synonym Fields = "(string \<times> string) list"

text \<open>
  \<^verbatim>\<open>RawTrace\<close>: the wire form of a trace error; the nested error is carried as
  undecoded bytes.
\<close>

record RawTrace =
  raw_Err :: bytes
  raw_Traces :: Traces
  raw_Message :: string
  raw_Messages :: "string list"
  raw_Fields :: Fields

definition zero_RawTrace :: RawTrace where
  "zero_RawTrace =
     \<lparr>raw_Err = [], raw_Traces = [], raw_Message = [], raw_Messages = [], raw_Fields = []\<rparr>"

text \<open>
  The error values the two files build or inspect:
  \<^item> \<open>TypedError k m\<close> is \<^verbatim>\<open>&trace.<k>Error{Message: m}\<close>;
  \<^item> \<open>TraceErr e ts m ms fs\<close> is
    \<^verbatim>\<open>&trace.TraceErr{Err: e, Traces: ts, Message: m, Messages: ms, Fields: fs}\<close>;
  \<^item> \<open>RawTraceError r\<close> is \<^verbatim>\<open>&RawTrace{...}\<close> used as an error (\<^verbatim>\<open>ReadError\<close>'s default);
  \<^item> \<open>Aggregate es\<close> is an error with the Aggregate capability, \<open>es\<close> its \<^verbatim>\<open>Errors()\<close>
    (non-nil errors: \<^verbatim>\<open>NewAggregate\<close> combines the non-nil ones);
  \<^item> \<open>StatusError c m\<close> is a native gRPC status error;
  \<^item> \<open>EOF\<close> is the sentinel \<^verbatim>\<open>io.EOF\<close>;
  \<^item> \<open>NotExistError m\<close> is a file-system error for which \<^verbatim>\<open>os.IsNotExist\<close> holds;
  \<^item> \<open>OtherError m\<close> is any other plain error, \<open>m\<close> its text;
  \<^item> \<open>ForeignError i\<close> is an error of a type declared by other code, \<open>i\<close> its
    identity: it may be a wrapper or have the Aggregate capability, and what its methods
    return is for the world to say. Such errors may wrap themselves or each other in a
    cycle, which the other constructors cannot.
\<close>

datatype error =
    TypedError kind string
  | TraceErr (Err: "error option") (Traces: Traces) (Message: string)
      (Messages: "string list") (Fields: Fields)
  | RawTraceError RawTrace
  | Aggregate "error list"
  | StatusError code string
  | EOF
  | NotExistError string
  | OtherError string
  | ForeignError nat

section \<open>Primitives outside the two source files\<close>

text \<open>
  The transport and encoding libraries, the debug flag, the frame capture and the hop
  bound \<^verbatim>\<open>maxHops\<close> are not defined in the two files. They are the fields of a
  \<open>world\<close> that every operation takes; every theorem holds for every world.
  So are the methods of the errors of foreign types: the error a foreign wrapper wraps
  (\<open>None\<close> when it is no wrapper) and the sub-errors of a foreign Aggregate (\<open>None\<close>
  when it has no such capability). Whether \<^verbatim>\<open>errors.As\<close> finds a gRPC status inside a
  foreign error or among the sub-errors of an Aggregate depends on methods that are not
  in the two files either; the last two fields say which status it finds, if any.
  A failing library call returns its error text (\<open>Some msg\<close>, or \<open>Inl msg\<close>).
  \<^verbatim>\<open>json.Unmarshal\<close> writes into its target, so the decoders take the target's value
  before the call and return it as the call left it, next to the error.
\<close>

record world =
  maxHops :: nat
  IsDebug :: bool
  CaptureTraces :: "nat \<Rightarrow> Traces"
  callerFrame :: Trace
  Error_string :: "error \<Rightarrow> string"
  json_Unmarshal_RawTrace :: "bytes \<Rightarrow> RawTrace \<Rightarrow> RawTrace \<times> string option"
  json_Unmarshal_Typed :: "kind \<Rightarrow> bytes \<Rightarrow> string \<Rightarrow> string \<times> string option"
  json_Marshal :: "error \<Rightarrow> string + bytes"
  json_MarshalIndent :: "error \<Rightarrow> string + bytes"
  base64_EncodeToString :: "bytes \<Rightarrow> string"
  base64_DecodeString :: "string \<Rightarrow> bytes option"
  foreign_OrigError :: "nat \<Rightarrow> error option"
  foreign_Errors :: "nat \<Rightarrow> error list option"
  foreign_GRPCStatus :: "nat \<Rightarrow> (code \<times> string) option"
  aggregate_GRPCStatus :: "error list \<Rightarrow> (code \<times> string) option"

text \<open>
  \<^verbatim>\<open>json.Unmarshal(data, err)\<close> for the targets \<^verbatim>\<open>ReadError\<close> selects: a typed error
  (its \<^verbatim>\<open>Message\<close> is decoded, its concrete type cannot change) or a \<^verbatim>\<open>RawTrace\<close>.
\<close>

fun json_Unmarshal :: "world \<Rightarrow> bytes \<Rightarrow> error \<Rightarrow> error \<times> string option" where
  "json_Unmarshal w data (TypedError k m) =
     (case json_Unmarshal_Typed w k data m of (m', e) \<Rightarrow> (TypedError k m', e))"
| "json_Unmarshal w data (RawTraceError r) =
     (case json_Unmarshal_RawTrace w data r of (r', e) \<Rightarrow> (RawTraceError r', e))"
| "json_Unmarshal w data err = (err, Some ''json: Unmarshal(unsupported target)'')"

text \<open>
  \<^verbatim>\<open>status.FromError\<close> of the gRPC library the module pins (v1.62.1). A native status
  error gives its own status. Any other error is searched with \<^verbatim>\<open>errors.As\<close> for a
  status error it wraps: a \<^verbatim>\<open>TraceErr\<close> is searched through the error it wraps, however
  deep. A status found this way is returned with its code and, as its message, the text
  of the whole error (\<^verbatim>\<open>err.Error()\<close>). \<^verbatim>\<open>status.Convert\<close> is the same, with
  \<^verbatim>\<open>Unknown\<close> and the error's text when no status is found.
  \<^verbatim>\<open>status.Error(codes.OK, _)\<close> is nil.
\<close>

fun errors_As_status :: "world \<Rightarrow> error \<Rightarrow> (code \<times> string) option" where
  "errors_As_status w (StatusError c m) = Some (c, m)"
| "errors_As_status w (TraceErr (Some e) ts m ms fs) = errors_As_status w e"
| "errors_As_status w (Aggregate es) = aggregate_GRPCStatus w es"
| "errors_As_status w (ForeignError i) = foreign_GRPCStatus w i"
| "errors_As_status w err = None"

fun status_FromError :: "world \<Rightarrow> error \<Rightarrow> (code \<times> string) option" where
  "status_FromError w (StatusError c m) = Some (c, m)"
| "status_FromError w err =
     (case errors_As_status w err of
        Some s \<Rightarrow> Some (fst s, Error_string w err)
      | None \<Rightarrow> None)"

definition status_Convert :: "world \<Rightarrow> error \<Rightarrow> code \<times> string" where
  "status_Convert w err =
     (case status_FromError w err of
        Some s \<Rightarrow> s
      | None \<Rightarrow> (codes_Unknown, Error_string w err))"

definition status_Error :: "code \<Rightarrow> string \<Rightarrow> error option" where
  "status_Error c msg = (if c = codes_OK then None else Some (StatusError c msg))"

text \<open>\<^verbatim>\<open>os.IsNotExist\<close> holds of the file-system errors of that kind only.\<close>

fun os_IsNotExist :: "error \<Rightarrow> bool" where
  "os_IsNotExist (NotExistError _) = True"
| "os_IsNotExist _ = False"

section \<open>Package code that the two files call\<close>

text \<open>
  Modelled from the spec: one hop of unwrapping. A \<^verbatim>\<open>TraceErr\<close> owns an underlying
  error (section 3); a hop goes from the wrapper to that error. A foreign error is a wrapper
  when the world says so.
\<close>

fun unwrap_hop :: "world \<Rightarrow> error \<Rightarrow> error option" where
  "unwrap_hop w (TraceErr e ts m ms fs) = e"
| "unwrap_hop w (ForeignError i) = foreign_OrigError w i"
| "unwrap_hop w err = None"

text \<open>
  Modelled from the spec: \<^verbatim>\<open>internal.TraverseErr\<close> is not in the two files. It
  "walks the unwrap chain up to maxHops hops via a traversal callback that short-circuits
  on the first decisive hop" (4.4). The callback's verdict is \<open>Some\<close> of what it
  decided, or \<open>None\<close> to go on; the number is the hop budget left.
\<close>

fun TraverseErr :: "world \<Rightarrow> nat \<Rightarrow> (error \<Rightarrow> 'a option) \<Rightarrow> error \<Rightarrow> 'a option" where
  "TraverseErr w 0 fn err = fn err"
| "TraverseErr w (Suc n) fn err =
     (case fn err of
        Some r \<Rightarrow> Some r
      | None \<Rightarrow>
          (case unwrap_hop w err of None \<Rightarrow> None | Some err' \<Rightarrow> TraverseErr w n fn err'))"

text \<open>
  Modelled from the spec: \<^verbatim>\<open>Is<Kind>(err)\<close> "tests whether the error -- or any error
  reachable by unwrapping up to maxHops times -- is concretely of that kind" (4.1); nil
  is of no kind. \<^verbatim>\<open>IsNotFound\<close> also accepts what \<^verbatim>\<open>os.IsNotExist\<close> accepts: the
  comment in \<^verbatim>\<open>ToGRPC\<close> calls that test a "duplicate check from trace.IsNotFound".
\<close>

fun concretely :: "kind \<Rightarrow> error \<Rightarrow> bool" where
  "concretely k (TypedError k' m) = (k = k')"
| "concretely k _ = False"

definition IsKind :: "kind \<Rightarrow> world \<Rightarrow> error option \<Rightarrow> bool" where
  "IsKind k w err =
     (case err of
        None \<Rightarrow> False
      | Some e \<Rightarrow>
          TraverseErr w (maxHops w) (\<lambda>x. if concretely k x then Some () else None) e \<noteq> None)"

definition IsNotFound :: "world \<Rightarrow> error option \<Rightarrow> bool" where
  "IsNotFound w err =
     (case err of
        None \<Rightarrow> False
      | Some e \<Rightarrow>
          TraverseErr w (maxHops w)
            (\<lambda>x. if os_IsNotExist x \<or> concretely NotFound x then Some () else None) e \<noteq> None)"

abbreviation "IsBadParameter \<equiv> IsKind BadParameter"
abbreviation "IsOAuth2 \<equiv> IsKind OAuth2"
abbreviation "IsNotImplemented \<equiv> IsKind NotImplemented"
abbreviation "IsCompareFailed \<equiv> IsKind CompareFailed"
abbreviation "IsAccessDenied \<equiv> IsKind AccessDenied"
abbreviation "IsAlreadyExists \<equiv> IsKind AlreadyExists"
abbreviation "IsLimitExceeded \<equiv> IsKind LimitExceeded"
abbreviation "IsConnectionProblem \<equiv> IsKind ConnectionProblem"

text \<open>
  Modelled from the spec: \<^verbatim>\<open>Unwrap\<close> follows the hops, at most \<^verbatim>\<open>maxHops\<close> of them,
  to the error that is wrapped; \<^verbatim>\<open>IsAggregate\<close> and the type assertion
  \<^verbatim>\<open>Unwrap(err).(Aggregate)\<close> ask whether that error has the Aggregate capability
  ("check whether the current error unwraps to an Aggregate", 4.2).
\<close>

fun Unwrap_hops :: "world \<Rightarrow> nat \<Rightarrow> error \<Rightarrow> error" where
  "Unwrap_hops w 0 err = err"
| "Unwrap_hops w (Suc n) err =
     (case unwrap_hop w err of None \<Rightarrow> err | Some err' \<Rightarrow> Unwrap_hops w n err')"

definition Unwrap :: "world \<Rightarrow> error option \<Rightarrow> error option" where
  "Unwrap w err = map_option (Unwrap_hops w (maxHops w)) err"

fun as_Aggregate :: "world \<Rightarrow> error option \<Rightarrow> error list option" where
  "as_Aggregate w (Some (Aggregate es)) = Some es"
| "as_Aggregate w (Some (ForeignError i)) = foreign_Errors w i"
| "as_Aggregate w err = None"

definition IsAggregate :: "world \<Rightarrow> error option \<Rightarrow> bool" where
  "IsAggregate w err = (as_Aggregate w (Unwrap w err) \<noteq> None)"

text \<open>
  Modelled from the spec: \<^verbatim>\<open>NewAggregate\<close> "combines one or more non-nil errors into a
  single error implementing the Aggregate capability; if only one non-nil error is given,
  it need not be wrapped (returns it directly)" (4.2). With no non-nil error it is nil.
\<close>

definition NewAggregate :: "error option list \<Rightarrow> error option" where
  "NewAggregate errs =
     (case List.map_filter id errs of
        [] \<Rightarrow> None
      | [e] \<Rightarrow> Some e
      | es \<Rightarrow> Some (Aggregate es))"

text \<open>
  Modelled from the spec: \<^verbatim>\<open>UserMessage\<close> returns "the TraceErr's override message if
  present, else the wrapped TypedError's message, else the error's default string form"
  (4.1).
\<close>

fun UserMessage :: "world \<Rightarrow> error \<Rightarrow> string" where
  "UserMessage w (TraceErr e ts m ms fs) =
     (if m \<noteq> [] then m
      else (case e of
              Some (TypedError k m') \<Rightarrow> m'
            | _ \<Rightarrow> Error_string w (TraceErr e ts m ms fs)))"
| "UserMessage w (TypedError k m) = m"
| "UserMessage w err = Error_string w err"

text \<open>
  Modelled from the spec: \<^verbatim>\<open>wrapProxy\<close> is not in the two files and the spec names no
  step of \<^verbatim>\<open>ReadError\<close> after the decoding. It is taken to be the spec's wrap (4.1):
  "no-op on nil; on a non-nil error, appends one capture frame (caller's
  function/file/line) to a new or existing TraceErr", "never duplicating the
  immediately-preceding frame".
\<close>

definition add_frame :: "Trace \<Rightarrow> Traces \<Rightarrow> Traces" where
  "add_frame f ts = (if ts \<noteq> [] \<and> last ts = f then ts else ts @ [f])"

fun wrapProxy :: "world \<Rightarrow> error option \<Rightarrow> error option" where
  "wrapProxy w None = None"
| "wrapProxy w (Some (TraceErr e ts m ms fs)) =
     Some (TraceErr e (add_frame (callerFrame w) ts) m ms fs)"
| "wrapProxy w (Some err) = Some (TraceErr (Some err) [callerFrame w] [] [] [])"

section \<open>The HTTP bridge (httplib.go)\<close>

definition StatusOK :: int where "StatusOK = 200"
definition StatusBadRequest :: int where "StatusBadRequest = 400"
definition StatusForbidden :: int where "StatusForbidden = 403"
definition StatusNotFound :: int where "StatusNotFound = 404"
definition StatusConflict :: int where "StatusConflict = 409"
definition StatusPreconditionFailed :: int where "StatusPreconditionFailed = 412"
definition StatusTooManyRequests :: int where "StatusTooManyRequests = 429"
definition StatusInternalServerError :: int where "StatusInternalServerError = 500"
definition StatusNotImplemented :: int where "StatusNotImplemented = 501"
definition StatusGatewayTimeout :: int where "StatusGatewayTimeout = 504"

text \<open>\<^verbatim>\<open>ErrorToCode\<close>: the \<^verbatim>\<open>switch\<close> with its cases in the source's order.\<close>

definition ErrorToCode :: "world \<Rightarrow> error option \<Rightarrow> int" where
  "ErrorToCode w err =
     (if IsAggregate w err then StatusGatewayTimeout
      else if IsNotFound w err then StatusNotFound
      else if IsBadParameter w err \<or> IsOAuth2 w err then StatusBadRequest
      else if IsNotImplemented w err then StatusNotImplemented
      else if IsCompareFailed w err then StatusPreconditionFailed
      else if IsAccessDenied w err then StatusForbidden
      else if IsAlreadyExists w err then StatusConflict
      else if IsLimitExceeded w err then StatusTooManyRequests
      else if IsConnectionProblem w err then StatusGatewayTimeout
      else StatusInternalServerError)"

text \<open>
  The spec's wording of the same function (4.3): a classification table, "checked in this
  priority order (first match wins)", and 500 when no row matches.
\<close>

definition classification_table :: "((world \<Rightarrow> error option \<Rightarrow> bool) \<times> int) list" where
  "classification_table =
     [(IsAggregate, 504),
      (IsNotFound, 404),
      (\<lambda>w err. IsBadParameter w err \<or> IsOAuth2 w err, 400),
      (IsNotImplemented, 501),
      (IsCompareFailed, 412),
      (IsAccessDenied, 403),
      (IsAlreadyExists, 409),
      (IsLimitExceeded, 429),
      (IsConnectionProblem, 504)]"

definition first_match_code :: "world \<Rightarrow> error option \<Rightarrow> int" where
  "first_match_code w err =
     (case find (\<lambda>row. fst row w err) classification_table of
        Some row \<Rightarrow> snd row
      | None \<Rightarrow> 500)"

text \<open>
  \<^verbatim>\<open>ReadError\<close>: the \<^verbatim>\<open>switch\<close> that selects the zero value to decode into.
\<close>

definition ReadError_target :: "int \<Rightarrow> error" where
  "ReadError_target statusCode =
     (if statusCode = StatusNotFound then TypedError NotFound []
      else if statusCode = StatusBadRequest then TypedError BadParameter []
      else if statusCode = StatusNotImplemented then TypedError NotImplemented []
      else if statusCode = StatusPreconditionFailed then TypedError CompareFailed []
      else if statusCode = StatusForbidden then TypedError AccessDenied []
      else if statusCode = StatusConflict then TypedError AlreadyExists []
      else if statusCode = StatusTooManyRequests then TypedError LimitExceeded []
      else if statusCode = StatusGatewayTimeout then TypedError ConnectionProblem []
      else RawTraceError zero_RawTrace)"

definition errorOnInvalidJSON :: "error \<Rightarrow> bytes \<Rightarrow> error" where
  "errorOnInvalidJSON err responseBody = TraceErr (Some err) [] [] [responseBody] []"

text \<open>
  \<^verbatim>\<open>unmarshalError\<close>. The second and third \<^verbatim>\<open>json.Unmarshal\<close> write into \<^verbatim>\<open>err\<close>;
  what they left there is what the later lines use.
\<close>

definition unmarshalError :: "world \<Rightarrow> error \<Rightarrow> bytes \<Rightarrow> error" where
  "unmarshalError w err responseBody =
     (if length responseBody = 0 then err
      else
        (case json_Unmarshal_RawTrace w responseBody zero_RawTrace of
           (raw, Some err2) \<Rightarrow> errorOnInvalidJSON err responseBody
         | (raw, None) \<Rightarrow>
             if length (raw_Err raw) \<noteq> 0 then
               (case json_Unmarshal w (raw_Err raw) err of
                  (err', Some err2) \<Rightarrow> errorOnInvalidJSON err' responseBody
                | (err', None) \<Rightarrow>
                    TraceErr (Some err') (raw_Traces raw) (raw_Message raw)
                      (raw_Messages raw) (raw_Fields raw))
             else
               (case json_Unmarshal w responseBody err of
                  (err', Some err2) \<Rightarrow> errorOnInvalidJSON err' responseBody
                | (err', None) \<Rightarrow> err')))"

definition ReadError :: "world \<Rightarrow> int \<Rightarrow> bytes \<Rightarrow> error option" where
  "ReadError w statusCode respBytes =
     (if statusCode \<ge> StatusOK \<and> statusCode < StatusBadRequest then None
      else wrapProxy w (Some (unmarshalError w (ReadError_target statusCode) respBytes)))"

text \<open>
  The \<^verbatim>\<open>http.ResponseWriter\<close>: the header map, the status written by
  \<^verbatim>\<open>WriteHeader\<close>, and the bytes written so far.
\<close>

record ResponseWriter =
  Header :: "(string \<times> string) list"
  WrittenStatus :: "int option"
  Body :: bytes

text \<open>
  \<^verbatim>\<open>replyJSON\<close>. \<open>marshal_fallback\<close> is the \<^verbatim>\<open>fmt.Sprintf\<close> of line 99 (\<^verbatim>\<open>%v\<close> of
  an error is its text), \<open>replyJSON_body\<close> is lines 90 to 100, the bytes to write.
\<close>

definition marshal_fallback :: "string \<Rightarrow> bytes" where
  \<open>marshal_fallback msg =
     ''{"error": {"message": "internal marshal error: '' @ msg @ ''"}}''\<close>

definition replyJSON_body :: "world \<Rightarrow> error option \<Rightarrow> bytes" where
  "replyJSON_body w err =
     (let obj = (case err of
                   Some (TraceErr e ts m ms fs) \<Rightarrow> TraceErr e ts m ms fs
                 | _ \<Rightarrow> TraceErr err [] [] [] [])
      in case json_MarshalIndent w obj of
           Inr out \<Rightarrow> out
         | Inl msg \<Rightarrow> marshal_fallback msg)"

definition replyJSON :: "world \<Rightarrow> ResponseWriter \<Rightarrow> int \<Rightarrow> error option \<Rightarrow> ResponseWriter" where
  "replyJSON w rw code err =
     (let rw1 = rw\<lparr>Header := AList.update ''Content-Type'' ''application/json'' (Header rw)\<rparr>;
          rw2 = rw1\<lparr>WrittenStatus := Some code\<rparr>
      in rw2\<lparr>Body := Body rw2 @ replyJSON_body w err\<rparr>)"

text \<open>
  The loop of \<^verbatim>\<open>WriteError\<close>; the first argument is the number of iterations left
  (\<^verbatim>\<open>maxHops - i\<close>). Next to the error it leaves in \<^verbatim>\<open>err\<close>, the function returns how
  many times the loop body ran to its last line \<^verbatim>\<open>err = errors[0]\<close>.
\<close>

fun flatten :: "world \<Rightarrow> nat \<Rightarrow> error option \<Rightarrow> error option \<times> nat" where
  "flatten w 0 err = (err, 0)"
| "flatten w (Suc n) err =
     (case as_Aggregate w (Unwrap w err) of
        None \<Rightarrow> (err, 0)
      | Some errors \<Rightarrow>
          (case errors of
             [] \<Rightarrow> (err, 0)
           | e # rest \<Rightarrow> (case flatten w n (Some e) of (r, k) \<Rightarrow> (r, Suc k))))"

definition WriteError :: "world \<Rightarrow> ResponseWriter \<Rightarrow> error option \<Rightarrow> ResponseWriter" where
  "WriteError w rw err =
     (if \<not> IsAggregate w err then replyJSON w rw (ErrorToCode w err) err
      else
        (let err' = fst (flatten w (maxHops w) err)
         in replyJSON w rw (ErrorToCode w err') err'))"

text \<open>The first sub-error an error unwraps to, when it unwraps to a non-empty Aggregate.\<close>

definition first_sub_error :: "world \<Rightarrow> error option \<Rightarrow> error option" where
  "first_sub_error w err =
     (case as_Aggregate w (Unwrap w err) of
        Some (e # rest) \<Rightarrow> Some e
      | _ \<Rightarrow> None)"

text \<open>A chain of \<open>n\<close> Aggregates, each holding the next as its only sub-error.\<close>

fun nested :: "nat \<Rightarrow> error \<Rightarrow> error" where
  "nested 0 base = base"
| "nested (Suc n) base = Aggregate [nested n base]"

section \<open>The gRPC bridge (package trail)\<close>

type_synonym MD = "(string \<times> string list) list"

definition DebugReportMetadata :: string where
  "DebugReportMetadata = ''trace-debug-report''"

text \<open>
  A \<^verbatim>\<open>context.Context\<close> as the bridge sees it: the metadata
  \<^verbatim>\<open>metadata.FromIncomingContext\<close> finds in it, and what \<^verbatim>\<open>grpc.SendHeader\<close>
  returns on its stream.
\<close>

record Context =
  FromIncomingContext :: "MD option"
  SendHeader :: "MD \<Rightarrow> error option"

text \<open>What the traversal callback of \<^verbatim>\<open>ToGRPC\<close> decides at a hop.\<close>

datatype decision = ReturnOriginal | SetCode code

fun ToGRPC_type_switch :: "error \<Rightarrow> code option" where
  "ToGRPC_type_switch (TypedError AccessDenied m) = Some codes_PermissionDenied"
| "ToGRPC_type_switch (TypedError AlreadyExists m) = Some codes_AlreadyExists"
| "ToGRPC_type_switch (TypedError BadParameter m) = Some codes_InvalidArgument"
| "ToGRPC_type_switch (TypedError CompareFailed m) = Some codes_FailedPrecondition"
| "ToGRPC_type_switch (TypedError ConnectionProblem m) = Some codes_Unavailable"
| "ToGRPC_type_switch (TypedError LimitExceeded m) = Some codes_ResourceExhausted"
| "ToGRPC_type_switch (TypedError NotFound m) = Some codes_NotFound"
| "ToGRPC_type_switch (TypedError NotImplemented m) = Some codes_Unimplemented"
| "ToGRPC_type_switch (TypedError OAuth2 m) = Some codes_InvalidArgument"
| "ToGRPC_type_switch _ = None"

definition ToGRPC_callback :: "world \<Rightarrow> error \<Rightarrow> decision option" where
  "ToGRPC_callback w err =
     (if err = EOF then Some ReturnOriginal
      else
        (case status_FromError w err of
           Some s \<Rightarrow> Some (SetCode (fst s))
         | None \<Rightarrow>
             if os_IsNotExist err then Some (SetCode codes_NotFound)
             else map_option SetCode (ToGRPC_type_switch err)))"

definition ToGRPC :: "world \<Rightarrow> error option \<Rightarrow> error option" where
  "ToGRPC w originalErr =
     (case originalErr of
        None \<Rightarrow> None
      | Some oe \<Rightarrow>
          (case status_FromError w oe of
             Some s \<Rightarrow> originalErr
           | None \<Rightarrow>
               (case TraverseErr w (maxHops w) (ToGRPC_callback w) oe of
                  Some ReturnOriginal \<Rightarrow> originalErr
                | Some (SetCode c) \<Rightarrow> status_Error c (UserMessage w oe)
                | None \<Rightarrow> status_Error codes_Unknown (UserMessage w oe))))"

text \<open>
  \<^verbatim>\<open>SetDebugInfo\<close> writes into the metadata map; the model returns the map it leaves.
\<close>

definition SetDebugInfo :: "world \<Rightarrow> error option \<Rightarrow> MD \<Rightarrow> MD" where
  "SetDebugInfo w err meta =
     (case err of
        Some (TraceErr e ts m ms fs) \<Rightarrow>
          (case json_Marshal w (TraceErr e ts m ms fs) of
             Inl marshalErr \<Rightarrow> meta
           | Inr out \<Rightarrow>
               AList.update DebugReportMetadata [base64_EncodeToString w out] meta)
      | _ \<Rightarrow> meta)"

definition DecodeDebugInfo :: "world \<Rightarrow> error option \<Rightarrow> MD \<Rightarrow> error option" where
  "DecodeDebugInfo w err meta =
     (if length meta = 0 then err
      else
        (case map_of meta DebugReportMetadata of
           None \<Rightarrow> err
         | Some encoded \<Rightarrow>
             if length encoded \<noteq> 1 then err
             else
               (case base64_DecodeString w (encoded ! 0) of
                  None \<Rightarrow> err
                | Some data \<Rightarrow>
                    (case json_Unmarshal_RawTrace w data zero_RawTrace of
                       (raw, Some unmarshalErr) \<Rightarrow> err
                     | (raw, None) \<Rightarrow>
                         if length (raw_Traces raw) \<noteq> 0 \<and> length (raw_Err raw) \<noteq> 0
                         then Some (TraceErr err (raw_Traces raw) (raw_Message raw) [] [])
                         else err))))"

text \<open>Lines 163 to 169 of \<^verbatim>\<open>Send\<close>: the metadata it goes on to send.\<close>

definition Send_metadata :: "world \<Rightarrow> Context \<Rightarrow> error option \<Rightarrow> MD" where
  "Send_metadata w ctx err =
     (let meta = (case FromIncomingContext ctx of Some md \<Rightarrow> md | None \<Rightarrow> [])
      in if IsDebug w then SetDebugInfo w err meta else meta)"

definition Send :: "world \<Rightarrow> Context \<Rightarrow> error option \<Rightarrow> error option" where
  "Send w ctx err =
     (let meta = Send_metadata w ctx err
      in if length meta \<noteq> 0 then
           (case SendHeader ctx meta of
              Some sendErr \<Rightarrow> NewAggregate [err, Some sendErr]
            | None \<Rightarrow> ToGRPC w err)
         else ToGRPC w err)"

text \<open>
  The variadic \<^verbatim>\<open>args ...interface{}\<close> of \<^verbatim>\<open>FromGRPC\<close>: a value is a
  \<^verbatim>\<open>metadata.MD\<close> or something else. Modelled from the spec: the interface
  \<^verbatim>\<open>trace.Error\<close> is not in the two files; the result is returned as it is when "the
  recovered object is itself a TraceErr" (4.4).
\<close>

datatype arg = MD_arg MD | Other_arg

fun is_trace_Error :: "error option \<Rightarrow> bool" where
  "is_trace_Error (Some (TraceErr e ts m ms fs)) = True"
| "is_trace_Error _ = False"

text \<open>Lines 282 to 294 of \<^verbatim>\<open>FromGRPC\<close>, after the \<^verbatim>\<open>switch\<close> has chosen \<^verbatim>\<open>e\<close>.\<close>

definition FromGRPC_finish :: "world \<Rightarrow> error \<Rightarrow> arg list \<Rightarrow> error option" where
  "FromGRPC_finish w e args =
     (case args of
        MD_arg meta # rest \<Rightarrow>
          (let e' = DecodeDebugInfo w (Some e) meta
           in if is_trace_Error e' then e'
              else Some (TraceErr e' (CaptureTraces w 1) [] [] []))
      | _ \<Rightarrow> Some (TraceErr (Some e) (CaptureTraces w 1) [] [] []))"

definition FromGRPC :: "world \<Rightarrow> error option \<Rightarrow> arg list \<Rightarrow> error option" where
  "FromGRPC w err args =
     (case err of
        None \<Rightarrow> None
      | Some err0 \<Rightarrow>
          (let statusErr = status_Convert w err0;
               code = fst statusErr;
               message = snd statusErr
           in case code of
                codes_OK \<Rightarrow> None
              | codes_NotFound \<Rightarrow> FromGRPC_finish w (TypedError NotFound message) args
              | codes_AlreadyExists \<Rightarrow>
                  FromGRPC_finish w (TypedError AlreadyExists message) args
              | codes_PermissionDenied \<Rightarrow>
                  FromGRPC_finish w (TypedError AccessDenied message) args
              | codes_FailedPrecondition \<Rightarrow>
                  FromGRPC_finish w (TypedError CompareFailed message) args
              | codes_InvalidArgument \<Rightarrow>
                  FromGRPC_finish w (TypedError BadParameter message) args
              | codes_ResourceExhausted \<Rightarrow>
                  FromGRPC_finish w (TypedError LimitExceeded message) args
              | codes_Unavailable \<Rightarrow>
                  FromGRPC_finish w (TypedError ConnectionProblem message) args
              | codes_Unimplemented \<Rightarrow>
                  FromGRPC_finish w (TypedError NotImplemented message) args
              | _ \<Rightarrow> FromGRPC_finish w err0 args))"

text \<open>The codes of the inverse table of \<^verbatim>\<open>FromGRPC\<close>, \<^verbatim>\<open>OK\<close> left out.\<close>

definition mapped_codes :: "code list" where
  "mapped_codes =
     [codes_NotFound, codes_AlreadyExists, codes_PermissionDenied, codes_FailedPrecondition,
      codes_InvalidArgument, codes_ResourceExhausted, codes_Unavailable, codes_Unimplemented]"

section \<open>The syntax check of encoding/json\<close>

text \<open>
  What "syntactically valid JSON" means for a response body: the byte-by-byte scanner of
  \<^verbatim>\<open>encoding/json\<close> (\<^verbatim>\<open>json.Valid\<close>, and the check \<^verbatim>\<open>json.Unmarshal\<close> starts
  with): a state with a stack of the open objects and arrays, the innermost at the head
  of the list. A literal \<^verbatim>\<open>true\<close>, \<^verbatim>\<open>false\<close> or \<^verbatim>\<open>null\<close> is one state that holds
  the bytes still expected. At the end of the input the scanner is fed one space, which
  ends a number at top level.
\<close>

datatype parse_ctx = parseObjectKey | parseObjectValue | parseArrayValue

datatype scan_state =
    stateBeginValue | stateBeginValueOrEmpty | stateBeginStringOrEmpty | stateBeginString
  | stateEndValue | stateEndTop
  | stateInString | stateInStringEsc | stateInStringEscU nat
  | stateNeg | state0 | state1 | stateDot | stateDot0 | stateE | stateESign | stateE0
  | stateLiteral string

type_synonym scanner = "scan_state \<times> parse_ctx list"

definition isSpace :: "char \<Rightarrow> bool" where
  "isSpace c = (c = CHR '' '' \<or> c = CHR 0x09 \<or> c = CHR 0x0D \<or> c = CHR 0x0A)"

definition isDigit :: "char \<Rightarrow> bool" where
  "isDigit c = (c \<in> set ''0123456789'')"

definition isHex :: "char \<Rightarrow> bool" where
  "isHex c = (c \<in> set ''0123456789abcdefABCDEF'')"

definition maxNestingDepth :: nat where
  "maxNestingDepth = 10000"

definition pushParseState :: "scan_state \<Rightarrow> parse_ctx \<Rightarrow> parse_ctx list \<Rightarrow> scanner option" where
  "pushParseState st p ps =
     (if length (p # ps) \<le> maxNestingDepth then Some (st, p # ps) else None)"

definition popParseState :: "parse_ctx list \<Rightarrow> scanner" where
  "popParseState ps = (if ps = [] then (stateEndTop, []) else (stateEndValue, ps))"

definition step_EndTop :: "char \<Rightarrow> scanner option" where
  "step_EndTop c = (if isSpace c then Some (stateEndTop, []) else None)"

definition step_EndValue :: "parse_ctx list \<Rightarrow> char \<Rightarrow> scanner option" where
  "step_EndValue ps c =
     (case ps of
        [] \<Rightarrow> step_EndTop c
      | p # rest \<Rightarrow>
          if isSpace c then Some (stateEndValue, ps)
          else
            (case p of
               parseObjectKey \<Rightarrow>
                 if c = CHR '':'' then Some (stateBeginValue, parseObjectValue # rest)
                 else None
             | parseObjectValue \<Rightarrow>
                 if c = CHR '','' then Some (stateBeginString, parseObjectKey # rest)
                 else if c = CHR ''}'' then Some (popParseState rest)
                 else None
             | parseArrayValue \<Rightarrow>
                 if c = CHR '','' then Some (stateBeginValue, ps)
                 else if c = CHR '']'' then Some (popParseState rest)
                 else None))"

definition step_BeginValue :: "parse_ctx list \<Rightarrow> char \<Rightarrow> scanner option" where
  \<open>step_BeginValue ps c =
     (if isSpace c then Some (stateBeginValue, ps)
      else if c = CHR ''{'' then pushParseState stateBeginStringOrEmpty parseObjectKey ps
      else if c = CHR ''['' then pushParseState stateBeginValueOrEmpty parseArrayValue ps
      else if c = CHR ''"'' then Some (stateInString, ps)
      else if c = CHR ''-'' then Some (stateNeg, ps)
      else if c = CHR ''0'' then Some (state0, ps)
      else if c = CHR ''t'' then Some (stateLiteral ''rue'', ps)
      else if c = CHR ''f'' then Some (stateLiteral ''alse'', ps)
      else if c = CHR ''n'' then Some (stateLiteral ''ull'', ps)
      else if isDigit c then Some (state1, ps)
      else None)\<close>

definition step_BeginString :: "parse_ctx list \<Rightarrow> char \<Rightarrow> scanner option" where
  \<open>step_BeginString ps c =
     (if isSpace c then Some (stateBeginString, ps)
      else if c = CHR ''"'' then Some (stateInString, ps)
      else None)\<close>

definition step_0 :: "parse_ctx list \<Rightarrow> char \<Rightarrow> scanner option" where
  "step_0 ps c =
     (if c = CHR ''.'' then Some (stateDot, ps)
      else if c = CHR ''e'' \<or> c = CHR ''E'' then Some (stateE, ps)
      else step_EndValue ps c)"

definition step_ESign :: "parse_ctx list \<Rightarrow> char \<Rightarrow> scanner option" where
  "step_ESign ps c = (if isDigit c then Some (stateE0, ps) else None)"

fun scan_step :: "scanner \<Rightarrow> char \<Rightarrow> scanner option" where
  "scan_step (stateBeginValue, ps) c = step_BeginValue ps c"
| "scan_step (stateBeginValueOrEmpty, ps) c =
     (if isSpace c then Some (stateBeginValueOrEmpty, ps)
      else if c = CHR '']'' then step_EndValue ps c
      else step_BeginValue ps c)"
| "scan_step (stateBeginStringOrEmpty, ps) c =
     (if isSpace c then Some (stateBeginStringOrEmpty, ps)
      else if c = CHR ''}'' then step_EndValue (parseObjectValue # tl ps) c
      else step_BeginString ps c)"
| "scan_step (stateBeginString, ps) c = step_BeginString ps c"
| "scan_step (stateEndValue, ps) c = step_EndValue ps c"
| "scan_step (stateEndTop, ps) c = step_EndTop c"
| \<open>scan_step (stateInString, ps) c =
     (if c = CHR ''"'' then Some (stateEndValue, ps)
      else if c = CHR 0x5C then Some (stateInStringEsc, ps)
      else if (of_char c :: nat) < 0x20 then None
      else Some (stateInString, ps))\<close>
| \<open>scan_step (stateInStringEsc, ps) c =
     (if c \<in> set ''bfnrt'' \<or> c = CHR 0x5C \<or> c = CHR ''/'' \<or> c = CHR ''"''
      then Some (stateInString, ps)
      else if c = CHR ''u'' then Some (stateInStringEscU 4, ps)
      else None)\<close>
| "scan_step (stateInStringEscU n, ps) c =
     (if isHex c then Some (if n \<le> 1 then stateInString else stateInStringEscU (n - 1), ps)
      else None)"
| "scan_step (stateNeg, ps) c =
     (if c = CHR ''0'' then Some (state0, ps)
      else if isDigit c then Some (state1, ps)
      else None)"
| "scan_step (state1, ps) c = (if isDigit c then Some (state1, ps) else step_0 ps c)"
| "scan_step (state0, ps) c = step_0 ps c"
| "scan_step (stateDot, ps) c = (if isDigit c then Some (stateDot0, ps) else None)"
| "scan_step (stateDot0, ps) c =
     (if isDigit c then Some (stateDot0, ps)
      else if c = CHR ''e'' \<or> c = CHR ''E'' then Some (stateE, ps)
      else step_EndValue ps c)"
| "scan_step (stateE, ps) c =
     (if c = CHR ''+'' \<or> c = CHR ''-'' then Some (stateESign, ps) else step_ESign ps c)"
| "scan_step (stateESign, ps) c = step_ESign ps c"
| "scan_step (stateE0, ps) c = (if isDigit c then Some (stateE0, ps) else step_EndValue ps c)"
| "scan_step (stateLiteral rest, ps) c =
     (case rest of
        [] \<Rightarrow> None
      | x # xs \<Rightarrow>
          if c = x then Some (if xs = [] then stateEndValue else stateLiteral xs, ps)
          else None)"

fun scan :: "scanner \<Rightarrow> string \<Rightarrow> scanner option" where
  "scan s [] = Some s"
| "scan s (c # cs) = (case scan_step s c of None \<Rightarrow> None | Some s' \<Rightarrow> scan s' cs)"

definition json_Valid :: "string \<Rightarrow> bool" where
  "json_Valid data =
     (case scan (stateBeginValue, []) data of
        None \<Rightarrow> False
      | Some s \<Rightarrow>
          fst s = stateEndTop \<or>
          (case scan_step s (CHR '' '') of None \<Rightarrow> False | Some s' \<Rightarrow> fst s' = stateEndTop))"

section \<open>Worlds for the examples\<close>

text \<open>
  A world to evaluate the operations in. Its decoders check the syntax of the document
  with the scanner above and read no field; serialisation is not needed by the examples
  and fails in this world; the debug flag is off; foreign errors are plain errors, and no
  status is found in an Aggregate.
\<close>

fun example_Error_string :: "error \<Rightarrow> string" where
  "example_Error_string (TypedError k m) = m"
| "example_Error_string (StatusError c m) = m"
| "example_Error_string (NotExistError m) = m"
| "example_Error_string (OtherError m) = m"
| "example_Error_string EOF = ''EOF''"
| "example_Error_string (ForeignError i) = ''foreign error''"
| "example_Error_string (TraceErr (Some e) ts m ms fs) = example_Error_string e"
| "example_Error_string err = ''error''"

definition syntax_check :: "bytes \<Rightarrow> 'a \<Rightarrow> 'a \<times> string option" where
  "syntax_check data target =
     (if json_Valid data then (target, None) else (target, Some ''invalid character''))"

definition example_world :: world where
  "example_world =
     \<lparr>maxHops = 50,
      IsDebug = False,
      CaptureTraces = (\<lambda>skip. [\<lparr>Path = ''trail.go'', Func = ''FromGRPC'', Line = 293\<rparr>]),
      callerFrame = \<lparr>Path = ''httplib.go'', Func = ''ReadError'', Line = 84\<rparr>,
      Error_string = example_Error_string,
      json_Unmarshal_RawTrace = syntax_check,
      json_Unmarshal_Typed = (\<lambda>k. syntax_check),
      json_Marshal = (\<lambda>obj. Inl ''json: unsupported type''),
      json_MarshalIndent = (\<lambda>obj. Inl ''json: unsupported type''),
      base64_EncodeToString = (\<lambda>data. []),
      base64_DecodeString = (\<lambda>s. None),
      foreign_OrigError = (\<lambda>i. None),
      foreign_Errors = (\<lambda>i. None),
      foreign_GRPCStatus = (\<lambda>i. None),
      aggregate_GRPCStatus = (\<lambda>es. None)\<rparr>"

section \<open>Notions used in the statements\<close>

text \<open>The status codes of the HTTP bridge's table and the status each kind maps to.\<close>

definition HTTPBridge_codes :: "int list" where
  "HTTPBridge_codes = [404, 400, 501, 412, 403, 409, 429, 504]"

fun kind_status :: "kind \<Rightarrow> int" where
  "kind_status NotFound = 404"
| "kind_status BadParameter = 400"
| "kind_status OAuth2 = 400"
| "kind_status NotImplemented = 501"
| "kind_status CompareFailed = 412"
| "kind_status AccessDenied = 403"
| "kind_status AlreadyExists = 409"
| "kind_status LimitExceeded = 429"
| "kind_status ConnectionProblem = 504"
| "kind_status k = 500"

text \<open>
  A body "does not decode as the expected JSON" when one of the \<^verbatim>\<open>json.Unmarshal\<close>
  calls that \<^verbatim>\<open>unmarshalError\<close> makes on it returns an error: the decoding of the
  envelope, or the decoding into the selected target (of the envelope's nested error
  bytes when there are some, of the whole body otherwise).
\<close>

definition decode_fails :: "world \<Rightarrow> error \<Rightarrow> bytes \<Rightarrow> bool" where
  "decode_fails w err body =
     (case json_Unmarshal_RawTrace w body zero_RawTrace of
        (raw, Some err2) \<Rightarrow> True
      | (raw, None) \<Rightarrow>
          snd (json_Unmarshal w (if raw_Err raw \<noteq> [] then raw_Err raw else body) err)
            \<noteq> None)"

text \<open>
  "No decodable debug metadata supplied": no argument, a first argument that is not
  metadata, or metadata from which \<^verbatim>\<open>DecodeDebugInfo\<close> recovers nothing.
\<close>

definition no_debug_info :: "world \<Rightarrow> error \<Rightarrow> arg list \<Rightarrow> bool" where
  "no_debug_info w err args =
     (case args of
        MD_arg meta # rest \<Rightarrow> DecodeDebugInfo w (Some err) meta = Some err
      | _ \<Rightarrow> True)"

definition metadata_given :: "arg list \<Rightarrow> bool" where
  "metadata_given args = (case args of MD_arg meta # rest \<Rightarrow> True | _ \<Rightarrow> False)"

text \<open>A byte that a JSON string holds as it is: no quote, no backslash, no control byte.\<close>

definition plain_byte :: "char \<Rightarrow> bool" where
  \<open>plain_byte c = (c \<noteq> CHR ''"'' \<and> c \<noteq> CHR 0x5C \<and> \<not> (of_char c :: nat) < 0x20)\<close>

text \<open>Values for the examples.\<close>

definition new_ResponseWriter :: ResponseWriter where
  "new_ResponseWriter = \<lparr>Header = [], WrittenStatus = None, Body = []\<rparr>"

definition two_errors :: error where
  "two_errors = Aggregate [OtherError ''disk full'', TypedError NotFound ''no such key'']"

text \<open>
  A world in which every foreign error is an Aggregate whose only sub-error is itself.
\<close>

definition looping_world :: world where
  "looping_world = example_world\<lparr>foreign_Errors := (\<lambda>i. Some [ForeignError i])\<rparr>"

text \<open>A context with incoming metadata whose stream refuses the header.\<close>

definition failing_stream :: Context where
  "failing_stream =
     \<lparr>FromIncomingContext = Some [(''request-id'', [''7''])],
      SendHeader = (\<lambda>md. Some (OtherError ''transport is closing''))\<rparr>"

text \<open>A context without incoming metadata.\<close>

definition quiet_stream :: Context where
  "quiet_stream = \<lparr>FromIncomingContext = None, SendHeader = (\<lambda>md. None)\<rparr>"

text \<open>
  A world in which the serialisation of the response fails, as it does when a
  \<^verbatim>\<open>MarshalJSON\<close> method returns an error; the text of that error quotes a field name.
\<close>

definition quoting_world :: world where
  \<open>quoting_world =
     example_world\<lparr>json_MarshalIndent :=
       (\<lambda>obj. Inl ''json: error calling MarshalJSON for type *trace.TraceErr: bad field "id"'')\<rparr>\<close>

text \<open>
  A world in which the metadata value \<^verbatim>\<open>cGF5bG9hZA==\<close> is the base64 of a document that
  decodes to the report \<open>debug_report\<close>.
\<close>

definition debug_report :: RawTrace where
  \<open>debug_report =
     \<lparr>raw_Err = ''{"message":"inner"}'',
      raw_Traces = [\<lparr>Path = ''server.go'', Func = ''Handle'', Line = 42\<rparr>],
      raw_Message = ''denied upstream'',
      raw_Messages = [''aux''],
      raw_Fields = [(''user'', ''bob'')]\<rparr>\<close>

definition debug_world :: world where
  "debug_world =
     example_world
       \<lparr>json_Unmarshal_RawTrace :=
          (\<lambda>data target. if data = ''payload'' then (debug_report, None)
                         else syntax_check data target),
        base64_DecodeString :=
          (\<lambda>s. if s = ''cGF5bG9hZA=='' then Some ''payload'' else None)\<rparr>"

definition debug_meta :: MD where
  "debug_meta = [(DebugReportMetadata, [''cGF5bG9hZA==''])]"

section \<open>Theorems\<close>

lemmas json_simps =
  json_Valid_def isSpace_def isDigit_def isHex_def popParseState_def pushParseState_def
  maxNestingDepth_def step_EndTop_def
  step_EndValue_def step_BeginValue_def step_BeginString_def step_0_def step_ESign_def

lemmas http_status_defs =
  StatusOK_def StatusBadRequest_def StatusForbidden_def StatusNotFound_def
  StatusConflict_def StatusPreconditionFailed_def StatusTooManyRequests_def
  StatusInternalServerError_def StatusNotImplemented_def StatusGatewayTimeout_def

lemma example_world_simps:
  "maxHops example_world = 50"
  "IsDebug example_world = False"
  "CaptureTraces example_world =
     (\<lambda>skip. [\<lparr>Path = ''trail.go'', Func = ''FromGRPC'', Line = 293\<rparr>])"
  "callerFrame example_world = \<lparr>Path = ''httplib.go'', Func = ''ReadError'', Line = 84\<rparr>"
  "Error_string example_world = example_Error_string"
  "json_Unmarshal_RawTrace example_world = syntax_check"
  "json_Unmarshal_Typed example_world = (\<lambda>k. syntax_check)"
  "json_MarshalIndent example_world = (\<lambda>obj. Inl ''json: unsupported type'')"
  "base64_DecodeString example_world = (\<lambda>s. None)"
  "foreign_OrigError example_world = (\<lambda>i. None)"
  "foreign_Errors example_world = (\<lambda>i. None)"
  "foreign_GRPCStatus example_world = (\<lambda>i. None)"
  "aggregate_GRPCStatus example_world = (\<lambda>es. None)"
  by (simp_all add: example_world_def)

subsection \<open>Hops\<close>

lemma TraverseErr_leaf: "unwrap_hop w e = None \<Longrightarrow> TraverseErr w n fn e = fn e"
  by (cases n) (simp_all split: option.splits)

lemma TraverseErr_wrapped:
  assumes "0 < n" and "fn (TraceErr (Some e) ts m ms fs) = None" and "unwrap_hop w e = None"
  shows "TraverseErr w n fn (TraceErr (Some e) ts m ms fs) = fn e"
proof -
  from assms(1) obtain n' where "n = Suc n'" by (cases n) auto
  then show ?thesis using assms(2,3) by (simp add: TraverseErr_leaf)
qed

lemma Unwrap_hops_leaf: "unwrap_hop w e = None \<Longrightarrow> Unwrap_hops w n e = e"
  by (cases n) simp_all

lemma Unwrap_hops_wrapped_typed:
  "as_Aggregate w (Some (Unwrap_hops w n (TraceErr (Some (TypedError k m)) ts a b c))) = None"
  by (cases n) (simp_all add: Unwrap_hops_leaf)

lemma IsAggregate_wrapped_typed:
  "\<not> IsAggregate w (Some (TraceErr (Some (TypedError k m)) ts a b c))"
  by (simp add: IsAggregate_def Unwrap_def Unwrap_hops_wrapped_typed)

lemma IsKind_wrapped_typed:
  "0 < maxHops w \<Longrightarrow>
   IsKind k' w (Some (TraceErr (Some (TypedError k m)) ts a b c)) = (k' = k)"
  by (simp add: IsKind_def TraverseErr_wrapped)

lemma IsNotFound_wrapped_typed:
  "0 < maxHops w \<Longrightarrow>
   IsNotFound w (Some (TraceErr (Some (TypedError k m)) ts a b c)) = (k = NotFound)"
  by (auto simp: IsNotFound_def TraverseErr_wrapped)

lemma ErrorToCode_wrapped_typed:
  "0 < maxHops w \<Longrightarrow>
   ErrorToCode w (Some (TraceErr (Some (TypedError k m)) ts a b c)) = kind_status k"
  by (cases k)
    (simp_all add: ErrorToCode_def IsAggregate_wrapped_typed IsKind_wrapped_typed
      IsNotFound_wrapped_typed http_status_defs)

lemma Aggregate_not_member: "Aggregate (e # es) \<noteq> e"
proof
  assume "Aggregate (e # es) = e"
  then have "size (Aggregate (e # es)) = size e" by simp
  then show False by simp
qed

subsection \<open>The HTTP bridge\<close>

text \<open>
  C4. For every error (nil included) \<^verbatim>\<open>ErrorToCode\<close> returns the status of the first row
  of the classification table that matches, the rows checked in the order Aggregate 504,
  NotFound 404, BadParameter or OAuth2 400, NotImplemented 501, CompareFailed 412,
  AccessDenied 403, AlreadyExists 409, LimitExceeded 429, ConnectionProblem 504, and 500
  when no row matches. So nil gives 500, an Aggregate gives 504 whatever it holds, and a
  typed error gives the status of its kind (OAuth2 400 like BadParameter, Retry and Trust
  500).
\<close>

theorem ErrorToCode_first_match:
  "ErrorToCode w err = first_match_code w err \<and>
   ErrorToCode w None = 500 \<and>
   ErrorToCode w (Some (Aggregate es)) = 504 \<and>
   ErrorToCode w (Some (TypedError k m)) = kind_status k"
proof -
  have 1: "ErrorToCode w err = first_match_code w err"
    by (simp add: ErrorToCode_def first_match_code_def classification_table_def
        http_status_defs)
  have 2: "ErrorToCode w None = 500"
    by (simp add: ErrorToCode_def IsAggregate_def Unwrap_def IsNotFound_def IsKind_def
        http_status_defs)
  have 3: "ErrorToCode w (Some (Aggregate es)) = 504"
    by (simp add: ErrorToCode_def IsAggregate_def Unwrap_def Unwrap_hops_leaf
        http_status_defs)
  have 4: "ErrorToCode w (Some (TypedError k m)) = kind_status k"
    by (cases k)
      (simp_all add: ErrorToCode_def IsAggregate_def Unwrap_def Unwrap_hops_leaf
        IsNotFound_def IsKind_def TraverseErr_leaf http_status_defs)
  from 1 2 3 4 show ?thesis by simp
qed

lemma unmarshalError_typed:
  "\<exists>m'. unmarshalError w (TypedError k m) body = TypedError k m' \<or>
        (\<exists>ts a b c. unmarshalError w (TypedError k m) body =
            TraceErr (Some (TypedError k m')) ts a b c)"
  by (auto simp: unmarshalError_def errorOnInvalidJSON_def
      split: prod.splits option.splits)

lemma wrapProxy_typed:
  assumes "e = TypedError k m' \<or> (\<exists>ts a b c. e = TraceErr (Some (TypedError k m')) ts a b c)"
  shows "\<exists>ts a b c. wrapProxy w (Some e) = Some (TraceErr (Some (TypedError k m')) ts a b c)"
  using assms by auto

lemma wrapProxy_Some: "wrapProxy w (Some e) \<noteq> None"
  by (cases e) simp_all

lemma ReadError_typed:
  assumes "statusCode \<in> set HTTPBridge_codes"
  shows "\<exists>k m ts a b c. kind_status k = statusCode \<and>
           ReadError w statusCode body = Some (TraceErr (Some (TypedError k m)) ts a b c)"
proof -
  from assms obtain k where k: "ReadError_target statusCode = TypedError k []"
    and c: "kind_status k = statusCode"
    by (auto simp: HTTPBridge_codes_def ReadError_target_def http_status_defs)
  from unmarshalError_typed [of w k "[]" body] obtain m' where
    "unmarshalError w (TypedError k []) body = TypedError k m' \<or>
        (\<exists>ts a b c. unmarshalError w (TypedError k []) body =
            TraceErr (Some (TypedError k m')) ts a b c)" by blast
  from wrapProxy_typed [OF this] obtain ts a b c where
    "wrapProxy w (Some (unmarshalError w (TypedError k []) body)) =
       Some (TraceErr (Some (TypedError k m')) ts a b c)" by blast
  moreover have "\<not> (statusCode \<ge> StatusOK \<and> statusCode < StatusBadRequest)"
    using assms by (auto simp: HTTPBridge_codes_def http_status_defs)
  ultimately show ?thesis using k c by (auto simp: ReadError_def)
qed

text \<open>
  C5. For every status code of the HTTP bridge's table (404, 400, 501, 412, 403, 409,
  429, 504) \<^verbatim>\<open>ErrorToCode(ReadError(code, body))\<close> is \<^verbatim>\<open>code\<close> again. It holds for every
  body, the kind's minimal envelope among them, and whatever the JSON decoders return,
  provided a classification may take at least one hop (\<^verbatim>\<open>maxHops > 0\<close>): the
  error \<^verbatim>\<open>ReadError\<close> returns wraps the typed error once.
\<close>

theorem ErrorToCode_ReadError:
  assumes "statusCode \<in> set HTTPBridge_codes" and "0 < maxHops w"
  shows "ErrorToCode w (ReadError w statusCode body) = statusCode"
proof -
  from ReadError_typed [OF assms(1)] obtain k m ts a b c where
    "kind_status k = statusCode"
    "ReadError w statusCode body = Some (TraceErr (Some (TypedError k m)) ts a b c)"
    by blast
  then show ?thesis using assms(2) by (simp add: ErrorToCode_wrapped_typed)
qed

theorem ErrorToCode_ReadError_witness:
  \<open>(404::int) \<in> set HTTPBridge_codes \<and> (504::int) \<in> set HTTPBridge_codes \<and>
   0 < maxHops example_world \<and>
   ErrorToCode example_world (ReadError example_world 404 ''{"message":"x"}'') = 404 \<and>
   ErrorToCode example_world (ReadError example_world 504 ''not json'') = 504\<close>
  using ErrorToCode_ReadError [of 404 example_world \<open>''{"message":"x"}''\<close>]
    ErrorToCode_ReadError [of 504 example_world "''not json''"]
  by (simp add: HTTPBridge_codes_def example_world_simps)

lemma unmarshalError_fallback:
  assumes "body \<noteq> []" and "decode_fails w err body"
  shows "\<exists>err'. unmarshalError w err body = TraceErr (Some err') [] [] [body] []"
  using assms
  by (auto simp: unmarshalError_def decode_fails_def errorOnInvalidJSON_def
      split: prod.splits option.splits if_splits)

lemma not_json_invalid: "\<not> json_Valid ''not json''"
  by (simp add: json_simps)

text \<open>
  C7. For every error status code (one outside 200..399) and every non-empty body that
  does not decode as the expected JSON, \<^verbatim>\<open>unmarshalError\<close> returns the invalid-JSON
  fallback, a \<^verbatim>\<open>TraceErr\<close> whose \<^verbatim>\<open>Messages\<close> is the one-element list holding the raw
  body, and \<^verbatim>\<open>ReadError\<close> returns that error (non-nil) with the caller's frame added, its
  \<^verbatim>\<open>Messages\<close> still exactly \<^verbatim>\<open>[body]\<close>. The instance \<^verbatim>\<open>ReadError(418, "not json")\<close>
  follows.
\<close>

theorem ReadError_invalid_JSON:
  assumes "\<not> (200 \<le> statusCode \<and> statusCode < 400)" and "body \<noteq> []"
    and "decode_fails w (ReadError_target statusCode) body"
  shows "\<exists>err'. unmarshalError w (ReadError_target statusCode) body =
                   TraceErr (Some err') [] [] [body] [] \<and>
                 ReadError w statusCode body =
                   Some (TraceErr (Some err') [callerFrame w] [] [body] []) \<and>
                 map_option Messages (ReadError w statusCode body) = Some [body]"
proof -
  from unmarshalError_fallback [OF assms(2,3)] obtain err' where
    "unmarshalError w (ReadError_target statusCode) body = TraceErr (Some err') [] [] [body] []"
    by blast
  then show ?thesis using assms(1)
    by (auto simp: ReadError_def http_status_defs add_frame_def)
qed

theorem ReadError_invalid_JSON_witness:
  "\<not> (200 \<le> (418::int) \<and> (418::int) < 400) \<and> ''not json'' \<noteq> [] \<and>
   decode_fails example_world (ReadError_target 418) ''not json'' \<and>
   ReadError example_world 418 ''not json'' =
     Some (TraceErr (Some (RawTraceError zero_RawTrace))
            [\<lparr>Path = ''httplib.go'', Func = ''ReadError'', Line = 84\<rparr>] []
            [''not json''] []) \<and>
   map_option Messages (ReadError example_world 418 ''not json'') = Some [''not json'']"
proof -
  have d: "decode_fails example_world (ReadError_target 418) ''not json''"
    by (simp add: decode_fails_def example_world_simps syntax_check_def not_json_invalid)
  have t: "ReadError_target 418 = RawTraceError zero_RawTrace"
    by (simp add: ReadError_target_def http_status_defs)
  from ReadError_invalid_JSON [of 418 "''not json''" example_world, OF _ _ d]
  obtain err' where
    u: "unmarshalError example_world (ReadError_target 418) ''not json'' =
          TraceErr (Some err') [] [] [''not json''] []"
    and r: "ReadError example_world 418 ''not json'' =
          Some (TraceErr (Some err') [callerFrame example_world] [] [''not json''] [])"
    by auto
  have "unmarshalError example_world (ReadError_target 418) ''not json'' =
          TraceErr (Some (RawTraceError zero_RawTrace)) [] [] [''not json''] []"
    by (simp add: unmarshalError_def t example_world_simps syntax_check_def not_json_invalid
        errorOnInvalidJSON_def)
  with u have "err' = RawTraceError zero_RawTrace" by simp
  with r d show ?thesis by (simp add: example_world_simps)
qed

text \<open>
  C9. \<^verbatim>\<open>ReadError\<close> returns nil exactly for the status codes of the window 200..399. For
  every status code below 200 (100 and 0 among them) and any body it returns a non-nil
  error: the code selects the generic \<^verbatim>\<open>RawTrace\<close> target, and the result is what
  \<^verbatim>\<open>unmarshalError\<close> rebuilds from that target and the body, wrapped.
\<close>

theorem ReadError_nil_window:
  "(ReadError w statusCode body = None) = (200 \<le> statusCode \<and> statusCode < 400) \<and>
   (statusCode < 200 \<longrightarrow>
      ReadError w statusCode body \<noteq> None \<and>
      ReadError_target statusCode = RawTraceError zero_RawTrace \<and>
      ReadError w statusCode body =
        wrapProxy w (Some (unmarshalError w (RawTraceError zero_RawTrace) body)))"
  by (auto simp: ReadError_def ReadError_target_def http_status_defs wrapProxy_Some)

theorem ReadError_nil_window_witness:
  "(100::int) < 200 \<and> ReadError example_world 100 ''gone'' \<noteq> None \<and>
   (0::int) < 200 \<and>
   ReadError example_world 0 [] =
     Some (TraceErr (Some (RawTraceError zero_RawTrace))
            [\<lparr>Path = ''httplib.go'', Func = ''ReadError'', Line = 84\<rparr>] [] [] []) \<and>
   ReadError example_world 204 ''gone'' = None"
proof -
  have "unmarshalError example_world (RawTraceError zero_RawTrace) [] =
          RawTraceError zero_RawTrace"
    by (simp add: unmarshalError_def)
  then show ?thesis
    using ReadError_nil_window [of example_world 100 "''gone''"]
      ReadError_nil_window [of example_world 0 "[]"]
      ReadError_nil_window [of example_world 204 "''gone''"]
    by (auto simp: example_world_simps)
qed

subsection \<open>The loop of WriteError\<close>

lemma flatten_Suc:
  "flatten w (Suc n) err =
     (case first_sub_error w err of
        None \<Rightarrow> (err, 0)
      | Some e \<Rightarrow> (fst (flatten w n (Some e)), Suc (snd (flatten w n (Some e)))))"
  by (simp add: first_sub_error_def split: option.splits list.splits prod.splits)

lemma flatten_count_le: "snd (flatten w n err) \<le> n"
  by (induction n arbitrary: err)
    (simp_all add: flatten_Suc del: flatten.simps(2) split: option.splits)

lemma flatten_iterates:
  "fst (flatten w n err) = (first_sub_error w ^^ snd (flatten w n err)) err"
  by (induction n arbitrary: err)
    (simp_all add: flatten_Suc funpow_swap1 del: flatten.simps(2) split: option.splits)

lemma flatten_each_step:
  "i < snd (flatten w n err) \<Longrightarrow> first_sub_error w ((first_sub_error w ^^ i) err) \<noteq> None"
proof (induction n arbitrary: err i)
  case 0
  then show ?case by simp
next
  case (Suc n)
  show ?case
  proof (cases "first_sub_error w err")
    case None
    with Suc.prems show ?thesis by (simp add: flatten_Suc del: flatten.simps(2))
  next
    case (Some e)
    show ?thesis
    proof (cases i)
      case 0
      with Some show ?thesis by simp
    next
      case (Suc j)
      with Suc.prems Some have "j < snd (flatten w n (Some e))"
        by (simp add: flatten_Suc del: flatten.simps(2))
      from Suc.IH [OF this] Some Suc show ?thesis
        by (simp add: funpow_swap1)
    qed
  qed
qed

lemma flatten_stops_early:
  "snd (flatten w n err) < n \<Longrightarrow> first_sub_error w (fst (flatten w n err)) = None"
  by (induction n arbitrary: err)
    (auto simp: flatten_Suc simp del: flatten.simps(2) split: option.splits)

lemma first_sub_error_None:
  "(first_sub_error w err = None) =
     (as_Aggregate w (Unwrap w err) = None \<or> as_Aggregate w (Unwrap w err) = Some [])"
  by (auto simp: first_sub_error_def split: option.splits list.splits)

lemma first_sub_error_Aggregate:
  "first_sub_error w (Some (Aggregate (e # es))) = Some e"
  by (simp add: first_sub_error_def Unwrap_def Unwrap_hops_leaf)

lemma flatten_self:
  "first_sub_error w (Some e) = Some e \<Longrightarrow> flatten w n (Some e) = (Some e, n)"
  by (induction n) (simp_all add: flatten_Suc del: flatten.simps(2))

lemma flatten_nested:
  "flatten w n (Some (nested (n + m) base)) = (Some (nested m base), n)"
  by (induction n)
    (simp_all add: flatten_Suc first_sub_error_Aggregate del: flatten.simps(2))

text \<open>
  C8. The loop of \<^verbatim>\<open>WriteError\<close> is a recursion on the iterations left, so it ends for
  every error. Started with \<^verbatim>\<open>maxHops\<close> iterations it replaces the error by its first
  sub-error at most \<^verbatim>\<open>maxHops\<close> times: the error it leaves is the first sub-error taken
  that many times, each of these steps found a first sub-error, and when it made fewer
  than \<^verbatim>\<open>maxHops\<close> steps the error it leaves does not unwrap to an Aggregate or unwraps
  to an empty one. On a chain of \<^verbatim>\<open>maxHops + 5\<close> nested Aggregates it makes exactly
  \<^verbatim>\<open>maxHops\<close> steps and leaves the chain of the last five; on an Aggregate that is its
  own first sub-error it makes exactly \<^verbatim>\<open>maxHops\<close> steps and leaves that Aggregate.
  \<^verbatim>\<open>WriteError\<close> replies with the error the loop leaves.
\<close>

theorem flatten_within_maxHops:
  "snd (flatten w (maxHops w) err) \<le> maxHops w \<and>
   fst (flatten w (maxHops w) err) =
     (first_sub_error w ^^ snd (flatten w (maxHops w) err)) err \<and>
   (\<forall>i < snd (flatten w (maxHops w) err).
      first_sub_error w ((first_sub_error w ^^ i) err) \<noteq> None) \<and>
   (snd (flatten w (maxHops w) err) < maxHops w \<longrightarrow>
      as_Aggregate w (Unwrap w (fst (flatten w (maxHops w) err))) = None \<or>
      as_Aggregate w (Unwrap w (fst (flatten w (maxHops w) err))) = Some []) \<and>
   flatten w (maxHops w) (Some (nested (maxHops w + 5) base)) =
     (Some (nested 5 base), maxHops w) \<and>
   (first_sub_error w (Some self) = Some self \<longrightarrow>
      flatten w (maxHops w) (Some self) = (Some self, maxHops w)) \<and>
   (IsAggregate w err \<longrightarrow>
      WriteError w rw err =
        replyJSON w rw (ErrorToCode w (fst (flatten w (maxHops w) err)))
          (fst (flatten w (maxHops w) err)))"
  using flatten_count_le [of w "maxHops w" err] flatten_iterates [of w "maxHops w" err]
    flatten_each_step [of _ w "maxHops w" err] flatten_stops_early [of w "maxHops w" err]
    flatten_nested [of w "maxHops w" 5 base] flatten_self [of w self "maxHops w"]
  by (simp add: first_sub_error_None WriteError_def Let_def)

lemma flatten_two_errors:
  "flatten example_world (maxHops example_world) (Some two_errors) =
     (Some (OtherError ''disk full''), 1)"
  by (simp add: example_world_simps eval_nat_numeral two_errors_def Unwrap_def
      Unwrap_hops_leaf)

lemma IsAggregate_two_errors: "IsAggregate example_world (Some two_errors)"
  by (simp add: IsAggregate_def Unwrap_def Unwrap_hops_leaf two_errors_def)

theorem flatten_within_maxHops_witness:
  "snd (flatten example_world (maxHops example_world) (Some two_errors)) = 1 \<and>
   (0::nat) < snd (flatten example_world (maxHops example_world) (Some two_errors)) \<and>
   snd (flatten example_world (maxHops example_world) (Some two_errors))
     < maxHops example_world \<and>
   first_sub_error example_world (Some two_errors) = Some (OtherError ''disk full'') \<and>
   fst (flatten example_world (maxHops example_world) (Some two_errors)) =
     Some (OtherError ''disk full'') \<and>
   as_Aggregate example_world (Unwrap example_world (Some (OtherError ''disk full''))) = None \<and>
   IsAggregate example_world (Some two_errors) \<and>
   WriteError example_world new_ResponseWriter (Some two_errors) =
     replyJSON example_world new_ResponseWriter 500 (Some (OtherError ''disk full'')) \<and>
   flatten example_world 50 (Some (nested 55 (OtherError ''root''))) =
     (Some (nested 5 (OtherError ''root'')), 50) \<and>
   first_sub_error looping_world (Some (ForeignError 0)) = Some (ForeignError 0) \<and>
   flatten looping_world 50 (Some (ForeignError 0)) = (Some (ForeignError 0), 50)"
proof -
  note T = flatten_within_maxHops
    [of example_world "Some two_errors" "OtherError ''root''" "ForeignError 0"
      new_ResponseWriter]
  have l: "maxHops looping_world = 50" "foreign_OrigError looping_world = (\<lambda>i. None)"
    "foreign_Errors looping_world = (\<lambda>i. Some [ForeignError i])"
    by (simp_all add: looping_world_def example_world_def)
  have 6: "first_sub_error looping_world (Some (ForeignError 0)) = Some (ForeignError 0)"
    by (simp add: first_sub_error_def Unwrap_def Unwrap_hops_leaf l)
  from flatten_within_maxHops
    [of looping_world "Some two_errors" "OtherError ''root''" "ForeignError 0"
      new_ResponseWriter] 6
  have 7: "flatten looping_world (maxHops looping_world) (Some (ForeignError 0)) =
      (Some (ForeignError 0), maxHops looping_world)"
    by blast
  have m: "maxHops example_world = 50"
    by (simp add: example_world_simps)
  from T IsAggregate_two_errors have 1:
    "WriteError example_world new_ResponseWriter (Some two_errors) =
       replyJSON example_world new_ResponseWriter
         (ErrorToCode example_world
            (fst (flatten example_world (maxHops example_world) (Some two_errors))))
         (fst (flatten example_world (maxHops example_world) (Some two_errors)))"
    by blast
  from T have 2:
    "flatten example_world (maxHops example_world)
       (Some (nested (maxHops example_world + 5) (OtherError ''root''))) =
     (Some (nested 5 (OtherError ''root'')), maxHops example_world)"
    by blast
  have 3: "first_sub_error example_world (Some two_errors) = Some (OtherError ''disk full'')"
    by (simp add: two_errors_def first_sub_error_Aggregate)
  have 4: "as_Aggregate example_world (Unwrap example_world (Some (OtherError ''disk full''))) = None"
    by (simp add: Unwrap_def Unwrap_hops_leaf)
  have 5: "ErrorToCode example_world (Some (OtherError ''disk full'')) = 500"
    by (simp add: ErrorToCode_def IsAggregate_def IsKind_def IsNotFound_def Unwrap_def
        Unwrap_hops_leaf m eval_nat_numeral http_status_defs)
  show ?thesis
    using 1 2 3 4 5 6 7 IsAggregate_two_errors unfolding flatten_two_errors
    by (simp add: m l)
qed

subsection \<open>The hand-built envelope of replyJSON\<close>

lemma scan_append:
  "scan s (xs @ ys) = (case scan s xs of None \<Rightarrow> None | Some s' \<Rightarrow> scan s' ys)"
  by (induction xs arbitrary: s) (simp_all split: option.splits)

lemma scan_plain:
  "\<forall>c \<in> set msg. plain_byte c \<Longrightarrow> scan (stateInString, ps) msg = Some (stateInString, ps)"
  by (induction msg) (simp_all add: plain_byte_def)

lemma scan_envelope_open:
  \<open>scan (stateBeginValue, []) ''{"error": {"message": "internal marshal error: '' =
     Some (stateInString, [parseObjectValue, parseObjectValue])\<close>
  by (simp add: json_simps)

lemma scan_envelope_close:
  \<open>scan (stateInString, [parseObjectValue, parseObjectValue]) ''"}}'' = Some (stateEndTop, [])\<close>
  by (simp add: json_simps)

text \<open>
  What the envelope does guarantee: with a failure text of plain bytes only, the body is
  valid JSON.
\<close>

lemma marshal_fallback_valid:
  assumes "\<forall>c \<in> set msg. plain_byte c"
  shows "json_Valid (marshal_fallback msg)"
proof -
  have "scan (stateBeginValue, []) (marshal_fallback msg) = Some (stateEndTop, [])"
    by (simp only: marshal_fallback_def scan_append scan_envelope_open scan_envelope_close
        scan_plain [OF assms] option.case)
  then show ?thesis by (simp add: json_Valid_def)
qed

lemma quoting_world_simps:
  "maxHops quoting_world = 50"
  \<open>json_MarshalIndent quoting_world =
     (\<lambda>obj. Inl ''json: error calling MarshalJSON for type *trace.TraceErr: bad field "id"'')\<close>
  by (simp_all add: quoting_world_def example_world_def)

text \<open>
  C2. The claim fails on the code. When \<^verbatim>\<open>json.MarshalIndent\<close> fails, \<^verbatim>\<open>replyJSON\<close>
  pastes the text of the failure between the quotes of a hand-built envelope and escapes
  nothing. With a failure text that quotes a field name, the body \<^verbatim>\<open>WriteError\<close> writes
  is the envelope below, and it is not valid JSON: the scanner rejects it.
\<close>

theorem WriteError_fallback_not_JSON:
  \<open>Body (WriteError quoting_world new_ResponseWriter (Some (OtherError ''boom''))) =
     ''{"error": {"message": "internal marshal error: json: error calling MarshalJSON for type *trace.TraceErr: bad field "id""}}'' \<and>
   \<not> json_Valid (Body (WriteError quoting_world new_ResponseWriter (Some (OtherError ''boom''))))\<close>
proof -
  have a: "\<not> IsAggregate quoting_world (Some (OtherError ''boom''))"
    by (simp add: IsAggregate_def Unwrap_def Unwrap_hops_leaf)
  have b: \<open>Body (WriteError quoting_world new_ResponseWriter (Some (OtherError ''boom''))) =
     ''{"error": {"message": "internal marshal error: json: error calling MarshalJSON for type *trace.TraceErr: bad field "id""}}''\<close>
    by (simp add: WriteError_def a replyJSON_def replyJSON_body_def quoting_world_simps
        marshal_fallback_def new_ResponseWriter_def Let_def)
  have c: \<open>\<not> json_Valid ''{"error": {"message": "internal marshal error: json: error calling MarshalJSON for type *trace.TraceErr: bad field "id""}}''\<close>
    by (simp add: json_simps)
  from b c show ?thesis by simp
qed

subsection \<open>The gRPC bridge\<close>

lemma ToGRPC_cases:
  "ToGRPC w (Some e) = Some e \<or> (\<exists>c m. ToGRPC w (Some e) = status_Error c m)"
  by (auto simp: ToGRPC_def split: option.splits decision.splits)

lemma ToGRPC_NotFound_example:
  "ToGRPC example_world (Some (TypedError NotFound ''no such user'')) =
     Some (StatusError codes_NotFound ''no such user'')"
  by (simp add: ToGRPC_def example_world_simps ToGRPC_callback_def status_Error_def
      eval_nat_numeral)

text \<open>
  C1, as the code has it. \<^verbatim>\<open>Send\<close> returns \<^verbatim>\<open>ToGRPC(err)\<close> when there is no metadata to
  send or the header is sent. When the metadata is not empty and sending the header fails
  with \<^verbatim>\<open>sendErr\<close>, it returns \<^verbatim>\<open>NewAggregate(err, sendErr)\<close> instead: for a non-nil
  \<^verbatim>\<open>err\<close> the Aggregate of the original error and the failure (nothing is discarded),
  and this is never what \<^verbatim>\<open>ToGRPC(err)\<close> returns.
\<close>

theorem Send_header_outcome:
  "(Send_metadata w ctx err = [] \<or> SendHeader ctx (Send_metadata w ctx err) = None
      \<longrightarrow> Send w ctx err = ToGRPC w err) \<and>
   (Send_metadata w ctx err \<noteq> [] \<and> SendHeader ctx (Send_metadata w ctx err) = Some sendErr
      \<longrightarrow> Send w ctx err = NewAggregate [err, Some sendErr] \<and>
          Send w ctx err =
            Some (case err of None \<Rightarrow> sendErr | Some e \<Rightarrow> Aggregate [e, sendErr]) \<and>
          Send w ctx err \<noteq> ToGRPC w err)"
proof (intro conjI impI)
  assume "Send_metadata w ctx err = [] \<or> SendHeader ctx (Send_metadata w ctx err) = None"
  then show "Send w ctx err = ToGRPC w err"
    by (auto simp: Send_def Let_def)
next
  assume a: "Send_metadata w ctx err \<noteq> [] \<and>
    SendHeader ctx (Send_metadata w ctx err) = Some sendErr"
  then show s: "Send w ctx err = NewAggregate [err, Some sendErr]"
    by (simp add: Send_def Let_def)
  show v: "Send w ctx err =
      Some (case err of None \<Rightarrow> sendErr | Some e \<Rightarrow> Aggregate [e, sendErr])"
    unfolding s by (cases err) (simp_all add: NewAggregate_def)
  show "Send w ctx err \<noteq> ToGRPC w err"
  proof (cases err)
    case None
    then show ?thesis using v by (simp add: ToGRPC_def)
  next
    case (Some e)
    then show ?thesis
      using v ToGRPC_cases [of w e] Aggregate_not_member [of e "[sendErr]"]
      by (auto simp: status_Error_def split: if_splits)
  qed
qed

theorem Send_header_outcome_witness:
  "Send_metadata example_world failing_stream (Some (TypedError NotFound ''no such user''))
     \<noteq> [] \<and>
   SendHeader failing_stream
     (Send_metadata example_world failing_stream (Some (TypedError NotFound ''no such user'')))
     = Some (OtherError ''transport is closing'') \<and>
   Send example_world failing_stream (Some (TypedError NotFound ''no such user'')) =
     Some (Aggregate [TypedError NotFound ''no such user'', OtherError ''transport is closing'']) \<and>
   Send_metadata example_world quiet_stream (Some (TypedError NotFound ''no such user'')) = [] \<and>
   Send example_world quiet_stream (Some (TypedError NotFound ''no such user'')) =
     Some (StatusError codes_NotFound ''no such user'')"
  using Send_header_outcome [of example_world failing_stream
      "Some (TypedError NotFound ''no such user'')" "OtherError ''transport is closing''"]
    Send_header_outcome [of example_world quiet_stream
      "Some (TypedError NotFound ''no such user'')" "OtherError ''transport is closing''"]
  by (auto simp: Send_metadata_def failing_stream_def quiet_stream_def example_world_simps
      ToGRPC_NotFound_example)

theorem Send_not_ToGRPC_counterexample:
  "Send example_world failing_stream (Some (TypedError NotFound ''no such user'')) =
     Some (Aggregate [TypedError NotFound ''no such user'', OtherError ''transport is closing'']) \<and>
   ToGRPC example_world (Some (TypedError NotFound ''no such user'')) =
     Some (StatusError codes_NotFound ''no such user'') \<and>
   Send example_world failing_stream (Some (TypedError NotFound ''no such user'')) \<noteq>
     ToGRPC example_world (Some (TypedError NotFound ''no such user''))"
  by (simp add: ToGRPC_NotFound_example Send_def Send_metadata_def failing_stream_def
      NewAggregate_def example_world_simps)

lemma FromGRPC_unmapped:
  assumes "fst (status_Convert w err) \<noteq> codes_OK"
    and "fst (status_Convert w err) \<notin> set mapped_codes"
  shows "FromGRPC w (Some err) args = FromGRPC_finish w err args"
  using assms by (simp add: FromGRPC_def Let_def mapped_codes_def split: code.splits)

text \<open>
  The status code of an error is the one \<^verbatim>\<open>status.Convert\<close> finds, also inside a
  \<^verbatim>\<open>TraceErr\<close>: a wrapped \<^verbatim>\<open>PermissionDenied\<close> status is a mapped code, and
  \<^verbatim>\<open>FromGRPC\<close> turns it into an \<^verbatim>\<open>AccessDeniedError\<close> whose message is the text of the
  whole error.
\<close>

lemma FromGRPC_wrapped_status:
  "FromGRPC w (Some (TraceErr (Some (StatusError codes_PermissionDenied m)) ts a b c)) [] =
     Some (TraceErr
       (Some (TypedError AccessDenied
          (Error_string w (TraceErr (Some (StatusError codes_PermissionDenied m)) ts a b c))))
       (CaptureTraces w 1) [] [] [])"
  by (simp add: FromGRPC_def FromGRPC_finish_def status_Convert_def)

text \<open>
  C3, as the code has it. For a non-nil error whose gRPC status code is outside the
  inverse table (and not \<^verbatim>\<open>OK\<close>) and with no decodable debug metadata supplied,
  \<^verbatim>\<open>FromGRPC\<close> keeps the original error unchanged as the mapped error. It returns the
  original error itself only when a metadata argument is given and the original error
  is already a \<^verbatim>\<open>TraceErr\<close>; otherwise it returns a new \<^verbatim>\<open>TraceErr\<close> whose \<^verbatim>\<open>Err\<close> is
  the original error and whose \<^verbatim>\<open>Traces\<close> are the frames captured at this hop.
\<close>

theorem FromGRPC_unmapped_code:
  assumes "fst (status_Convert w err) \<noteq> codes_OK"
    and "fst (status_Convert w err) \<notin> set mapped_codes"
    and "no_debug_info w err args"
  shows "FromGRPC w (Some err) args =
           (if metadata_given args \<and> is_trace_Error (Some err) then Some err
            else Some (TraceErr (Some err) (CaptureTraces w 1) [] [] []))"
proof -
  have "FromGRPC_finish w err args =
           (if metadata_given args \<and> is_trace_Error (Some err) then Some err
            else Some (TraceErr (Some err) (CaptureTraces w 1) [] [] []))"
    using assms(3)
    by (auto simp: FromGRPC_finish_def no_debug_info_def metadata_given_def Let_def
        split: list.splits arg.splits)
  then show ?thesis using FromGRPC_unmapped [OF assms(1,2)] by simp
qed

theorem FromGRPC_unmapped_code_witness:
  "fst (status_Convert example_world (OtherError ''boom'')) \<noteq> codes_OK \<and>
   fst (status_Convert example_world (OtherError ''boom'')) \<notin> set mapped_codes \<and>
   no_debug_info example_world (OtherError ''boom'') [] \<and>
   FromGRPC example_world (Some (OtherError ''boom'')) [] =
     Some (TraceErr (Some (OtherError ''boom''))
             [\<lparr>Path = ''trail.go'', Func = ''FromGRPC'', Line = 293\<rparr>] [] [] []) \<and>
   no_debug_info example_world (TraceErr (Some (OtherError ''boom'')) [] [] [] [])
     [MD_arg []] \<and>
   FromGRPC example_world (Some (TraceErr (Some (OtherError ''boom'')) [] [] [] []))
     [MD_arg []] = Some (TraceErr (Some (OtherError ''boom'')) [] [] [] []) \<and>
   status_Convert example_world
     (TraceErr (Some (StatusError codes_Internal ''panic'')) [] [] [] []) =
     (codes_Internal, ''panic'') \<and>
   FromGRPC example_world
     (Some (TraceErr (Some (StatusError codes_Internal ''panic'')) [] [] [] [])) [] =
     Some (TraceErr (Some (TraceErr (Some (StatusError codes_Internal ''panic'')) [] [] [] []))
             [\<lparr>Path = ''trail.go'', Func = ''FromGRPC'', Line = 293\<rparr>] [] [] [])"
  using FromGRPC_unmapped_code [of example_world "OtherError ''boom''" "[]"]
    FromGRPC_unmapped_code
      [of example_world "TraceErr (Some (OtherError ''boom'')) [] [] [] []" "[MD_arg []]"]
    FromGRPC_unmapped_code
      [of example_world "TraceErr (Some (StatusError codes_Internal ''panic'')) [] [] [] []"
        "[]"]
  by (simp add: status_Convert_def mapped_codes_def no_debug_info_def metadata_given_def
      DecodeDebugInfo_def example_world_simps)

theorem FromGRPC_passthrough_counterexample:
  "FromGRPC example_world (Some (OtherError ''boom'')) [] =
     Some (TraceErr (Some (OtherError ''boom''))
             [\<lparr>Path = ''trail.go'', Func = ''FromGRPC'', Line = 293\<rparr>] [] [] []) \<and>
   FromGRPC example_world (Some (OtherError ''boom'')) [] \<noteq> Some (OtherError ''boom'')"
  by (simp add: FromGRPC_def FromGRPC_finish_def status_Convert_def example_world_simps)

lemma ToGRPC_wrapped_typed:
  assumes "0 < maxHops w" and "ToGRPC_type_switch (TypedError k m) = Some c"
    and "c \<noteq> codes_OK"
  shows "ToGRPC w (Some (TraceErr (Some (TypedError k m)) ts a b fs)) =
           Some (StatusError c (UserMessage w (TraceErr (Some (TypedError k m)) ts a b fs)))"
proof -
  have "TraverseErr w (maxHops w) (ToGRPC_callback w)
          (TraceErr (Some (TypedError k m)) ts a b fs) =
        ToGRPC_callback w (TypedError k m)"
    using assms(1) by (intro TraverseErr_wrapped) (simp_all add: ToGRPC_callback_def)
  also have "\<dots> = Some (SetCode c)"
    using assms(2) by (simp add: ToGRPC_callback_def)
  finally show ?thesis using assms(3) by (simp add: ToGRPC_def status_Error_def)
qed

lemma FromGRPC_finish_typed:
  "\<exists>ts a. FromGRPC_finish w (TypedError k m) args =
             Some (TraceErr (Some (TypedError k m)) ts a [] [])"
  by (auto simp: FromGRPC_finish_def DecodeDebugInfo_def Let_def
      split: list.splits arg.splits option.splits prod.splits)

text \<open>
  C6. For every gRPC status error \<^verbatim>\<open>e\<close> whose code is one of the eight mapped codes
  (NotFound, AlreadyExists, PermissionDenied, FailedPrecondition, InvalidArgument,
  ResourceExhausted, Unavailable, Unimplemented), \<^verbatim>\<open>ToGRPC(FromGRPC(e))\<close> is a gRPC
  status error with the code of \<^verbatim>\<open>e\<close>, with or without metadata passed to
  \<^verbatim>\<open>FromGRPC\<close>, provided the traversal may take at least one hop (\<^verbatim>\<open>maxHops > 0\<close>).
\<close>

theorem ToGRPC_FromGRPC_code:
  assumes "c \<in> set mapped_codes" and "0 < maxHops w"
  shows "\<exists>msg. ToGRPC w (FromGRPC w (Some (StatusError c m)) args) = Some (StatusError c msg)"
proof -
  from assms(1) obtain k where
    f: "FromGRPC w (Some (StatusError c m)) args = FromGRPC_finish w (TypedError k m) args"
    and t: "ToGRPC_type_switch (TypedError k m) = Some c" and n: "c \<noteq> codes_OK"
    by (auto simp: mapped_codes_def FromGRPC_def status_Convert_def)
  from FromGRPC_finish_typed [of w k m args] obtain ts a where
    "FromGRPC_finish w (TypedError k m) args = Some (TraceErr (Some (TypedError k m)) ts a [] [])"
    by blast
  with f ToGRPC_wrapped_typed [OF assms(2) t n, of ts a "[]" "[]"] show ?thesis by simp
qed

theorem ToGRPC_FromGRPC_code_witness:
  "codes_PermissionDenied \<in> set mapped_codes \<and> 0 < maxHops example_world \<and>
   FromGRPC example_world (Some (StatusError codes_PermissionDenied ''denied'')) [] =
     Some (TraceErr (Some (TypedError AccessDenied ''denied''))
             [\<lparr>Path = ''trail.go'', Func = ''FromGRPC'', Line = 293\<rparr>] [] [] []) \<and>
   (\<exists>msg. ToGRPC example_world
            (FromGRPC example_world (Some (StatusError codes_PermissionDenied ''denied'')) []) =
          Some (StatusError codes_PermissionDenied msg))"
  using ToGRPC_FromGRPC_code [of codes_PermissionDenied example_world "''denied''" "[]"]
  by (simp add: mapped_codes_def example_world_simps FromGRPC_def FromGRPC_finish_def
      status_Convert_def)

text \<open>
  C10. Whenever \<^verbatim>\<open>DecodeDebugInfo\<close> decodes the payload (the metadata holds one value
  under the debug key, the base64 and the JSON decode, and the report has frames and
  nested error bytes), it returns a new \<^verbatim>\<open>TraceErr\<close> whose \<^verbatim>\<open>Err\<close> is the error passed
  in, not anything decoded from the payload, with the report's \<^verbatim>\<open>Traces\<close> and
  \<^verbatim>\<open>Message\<close> only: \<^verbatim>\<open>Messages\<close> and \<^verbatim>\<open>Fields\<close> are empty whatever the report holds, and
  the nested error bytes are not used. \<^verbatim>\<open>FromGRPC\<close> returns that error as it is.
\<close>

theorem DecodeDebugInfo_decoded:
  assumes "map_of meta DebugReportMetadata = Some [encoded]"
    and "base64_DecodeString w encoded = Some data"
    and "json_Unmarshal_RawTrace w data zero_RawTrace = (raw, None)"
    and "raw_Traces raw \<noteq> []" and "raw_Err raw \<noteq> []"
  shows "DecodeDebugInfo w err meta =
           Some (TraceErr err (raw_Traces raw) (raw_Message raw) [] []) \<and>
         FromGRPC_finish w e (MD_arg meta # rest) =
           Some (TraceErr (Some e) (raw_Traces raw) (raw_Message raw) [] [])"
proof -
  from assms(1) have "meta \<noteq> []" by auto
  then have d: "\<And>x. DecodeDebugInfo w x meta =
           Some (TraceErr x (raw_Traces raw) (raw_Message raw) [] [])"
    using assms by (simp add: DecodeDebugInfo_def)
  then show ?thesis by (simp add: FromGRPC_finish_def)
qed

theorem DecodeDebugInfo_decoded_witness:
  "map_of debug_meta DebugReportMetadata = Some [''cGF5bG9hZA==''] \<and>
   base64_DecodeString debug_world ''cGF5bG9hZA=='' = Some ''payload'' \<and>
   json_Unmarshal_RawTrace debug_world ''payload'' zero_RawTrace = (debug_report, None) \<and>
   raw_Traces debug_report \<noteq> [] \<and> raw_Err debug_report \<noteq> [] \<and>
   raw_Messages debug_report \<noteq> [] \<and> raw_Fields debug_report \<noteq> [] \<and>
   DecodeDebugInfo debug_world (Some (TypedError AccessDenied ''denied'')) debug_meta =
     Some (TraceErr (Some (TypedError AccessDenied ''denied''))
             [\<lparr>Path = ''server.go'', Func = ''Handle'', Line = 42\<rparr>]
             ''denied upstream'' [] [])"
  using DecodeDebugInfo_decoded [of debug_meta "''cGF5bG9hZA==''" debug_world "''payload''"
      debug_report "Some (TypedError AccessDenied ''denied'')"]
  by (simp add: debug_meta_def debug_world_def debug_report_def example_world_def)

end
